theory Spec2Isabelle
  imports Complex_Main "HOL-Library.List_Lexorder" "HOL-Library.Char_ord"
    "HOL-Library.Product_Lexorder" "HOL-Library.Multiset"
begin

section \<open>Numbers\<close>

text \<open>
  The program computes with Python floats. The embedding computes with exact reals: the
  rounding error of the float operations, overflow, and the values inf and nan are not
  represented. A float division by zero raises \<open>ZeroDivisionError\<close> in Python; the
  simulator's two divisions (by the entry price of a held position, by the close of the
  bar that opens a position) are modelled with that error.

  \<open>round(x, n)\<close> rounds to \<open>n\<close> decimals, ties to the even neighbour.
\<close>

definition round_half_even :: "real \<Rightarrow> int" where
  "round_half_even y =
     (let f = \<lfloor>y\<rfloor>; d = y - of_int f
      in if d < 1 / 2 then f
         else if 1 / 2 < d then f + 1
         else if even f then f else f + 1)"

definition py_round :: "real \<Rightarrow> nat \<Rightarrow> real" where
  "py_round x n = of_int (round_half_even (x * 10 ^ n)) / 10 ^ n"

section \<open>Data\<close>

text \<open>
  A DataFrame is the list of its rows, in row order. \<open>bar\<close> holds the columns of a raw
  price bar that the program reads: \<open>ticker\<close>, \<open>timestamp\<close> (in seconds) and \<open>close\<close>;
  the other columns of the data provider (open, high, low, volume) pass through the
  program untouched and are left out.
  \<open>compute_indicators\<close> adds the indicator columns (\<open>ibar\<close>; a missing value, NaN in
  pandas, is \<open>None\<close>), \<open>evaluate_signals\<close> adds \<open>buy\<close>, \<open>sell\<close> and \<open>signal\<close>
  (\<open>sbar\<close>).
\<close>

datatype error = KeyError string | ZeroDivisionError

record position =
  entry_price :: real
  entry_datetime :: real
  cash :: real
  shares :: real

record trade =
  ticker :: string
  entry_datetime :: real
  exit_datetime :: real
  entry_price :: real
  exit_price :: real
  return_pct :: real
  pnl :: real
  allocated_cash :: real
  shares :: real
  holding_ticks :: real
  exit_reason :: string

record bar =
  ticker :: string
  timestamp :: real
  close :: real

record ibar = bar +
  short_ma :: "real option"
  long_ma :: "real option"
  rsi :: "real option"
  macd :: "real option"
  macd_signal :: "real option"
  bb_upper :: "real option"
  bb_lower :: "real option"
  bb_middle :: "real option"

record sbar = ibar +
  buy :: bool
  sell :: bool
  signal :: int

text \<open>The local variables of \<open>simulate_trades_with_risk\<close> that its loop updates.\<close>

record sim_state =
  held_positions :: "string \<rightharpoonup> position"
  trades :: "trade list"
  cash :: real

text \<open>
  The configuration is a dictionary of dictionaries; only its numeric sections are
  represented (\<open>config['risk']['stop_loss']\<close> is \<open>config ''risk''\<close> applied to
  \<open>''stop_loss''\<close>).
\<close>

type_synonym config = "string \<rightharpoonup> (string \<rightharpoonup> real)"

section \<open>Indicator computation\<close>

text \<open>
  The \<open>ta\<close> library is not part of the program: the indicator series it computes from
  the closes of one ticker (\<open>RSIIndicator(close, window=14).rsi()\<close>, \<open>MACD(close)\<close> with
  \<open>macd()\<close> and \<open>macd_signal()\<close>, \<open>BollingerBands(close, window=20, window_dev=2)\<close> with
  its three bands) are parameters. A frame that carries its index is a list of pairs of
  an index label and a row.
\<close>

record ta =
  RSIIndicator_rsi :: "real list \<Rightarrow> real option list"
  MACD_macd :: "real list \<Rightarrow> real option list"
  MACD_macd_signal :: "real list \<Rightarrow> real option list"
  bollinger_hband :: "real list \<Rightarrow> real option list"
  bollinger_lband :: "real list \<Rightarrow> real option list"
  bollinger_mavg :: "real list \<Rightarrow> real option list"

text \<open>
  \<open>Series.rolling(window).mean()\<close> of pandas, for a fixed window and the default
  \<open>min_periods = window\<close>: one pass that keeps the sum \<open>sum_x\<close> and the count \<open>nobs\<close> of
  the values in the window; at index \<open>i\<close> the value that leaves the window is removed,
  the new value is added, and the mean is emitted if the window holds at least
  \<open>min_periods\<close> values, NaN otherwise.
\<close>

definition roll_step ::
    "nat \<Rightarrow> real list \<Rightarrow> nat \<Rightarrow> real \<times> nat \<times> real option list \<Rightarrow> real \<times> nat \<times> real option list" where
  "roll_step window values i acc =
     (case acc of (sum_x, nobs, output) \<Rightarrow>
        let (sum_x, nobs) =
              (if window \<le> i then (sum_x - values ! (i - window), nobs - 1)
               else (sum_x, nobs));
            (sum_x, nobs) = (sum_x + values ! i, nobs + 1);
            result = (if window \<le> nobs \<and> 0 < nobs then Some (sum_x / real nobs) else None)
        in (sum_x, nobs, output @ [result]))"

definition rolling_mean :: "nat \<Rightarrow> real list \<Rightarrow> real option list" where
  "rolling_mean window values =
     snd (snd (fold (roll_step window values) [0..<length values] (0, 0, [])))"

text \<open>
  The specification's moving average at index \<open>i\<close>: undefined while fewer than \<open>w\<close>
  closes are available, then the arithmetic mean of the trailing \<open>w\<close> closes, the one at
  \<open>i\<close> included.
\<close>

definition trailing_mean :: "nat \<Rightarrow> real list \<Rightarrow> nat \<Rightarrow> real option" where
  "trailing_mean w closes i =
     (if i + 1 < w then None
      else Some (sum_list (take w (drop (i + 1 - w) closes)) / real w))"

text \<open>
  \<open>group.sort_index()\<close>; reading a column at a row position (a missing value where the
  series is shorter); \<open>round(4)\<close> on a column.
\<close>

definition sort_index :: "(int \<times> 'a) list \<Rightarrow> (int \<times> 'a) list" where
  "sort_index df = sort_key fst df"

definition column_at :: "real option list \<Rightarrow> nat \<Rightarrow> real option" where
  "column_at col k = (if k < length col then col ! k else None)"

definition round_col :: "real option list \<Rightarrow> real option list" where
  "round_col col = map (map_option (\<lambda>v. py_round v 4)) col"

text \<open>
  \<open>compute_group_indicators\<close>, the function applied to the rows of one ticker.
\<close>

definition compute_group_indicators ::
    "ta \<Rightarrow> nat \<Rightarrow> nat \<Rightarrow> (int \<times> bar) list \<Rightarrow> (int \<times> ibar) list" where
  "compute_group_indicators lib short_window long_window grp =
     (let group = sort_index grp;
          closes = map (\<lambda>(idx, row). close row) group;
          short_ma_col = rolling_mean short_window closes;
          long_ma_col = rolling_mean long_window closes;
          rsi_col = RSIIndicator_rsi lib closes;
          macd_col = MACD_macd lib closes;
          macd_signal_col = MACD_macd_signal lib closes;
          bb_upper_col = bollinger_hband lib closes;
          bb_lower_col = bollinger_lband lib closes;
          bb_middle_col = bollinger_mavg lib closes
      in map (\<lambda>k. case group ! k of (idx, row) \<Rightarrow>
                (idx,
                 \<lparr>bar.ticker = bar.ticker row, timestamp = timestamp row, close = close row,
                  short_ma = column_at (round_col short_ma_col) k,
                  long_ma = column_at (round_col long_ma_col) k,
                  rsi = column_at (round_col rsi_col) k,
                  macd = column_at (round_col macd_col) k,
                  macd_signal = column_at (round_col macd_signal_col) k,
                  bb_upper = column_at (round_col bb_upper_col) k,
                  bb_lower = column_at (round_col bb_lower_col) k,
                  bb_middle = column_at (round_col bb_middle_col) k\<rparr>))
           [0..<length group])"

text \<open>
  \<open>df.groupby('ticker', group_keys=False).apply(compute_group_indicators)\<close>: the groups in
  the order of their keys, each with its rows in frame order, and the results
  concatenated. (pandas may put the rows of the result back into the order of the
  original index; the order of the result is not used below.) \<open>dropna(subset=...)\<close> drops
  the rows that miss a value in one of the given columns.
\<close>

definition ticker_groups :: "(int \<times> bar) list \<Rightarrow> (int \<times> bar) list list" where
  "ticker_groups df =
     map (\<lambda>tk. filter (\<lambda>(idx, row). bar.ticker row = tk) df)
       (sort (remdups (map (\<lambda>(idx, row). bar.ticker row) df)))"

definition dropna :: "('r \<Rightarrow> real option) list \<Rightarrow> (int \<times> 'r) list \<Rightarrow> (int \<times> 'r) list" where
  "dropna subset_cols df =
     filter (\<lambda>(idx, row). list_all (\<lambda>column. column row \<noteq> None) subset_cols) df"

definition apply_indicators ::
    "ta \<Rightarrow> nat \<Rightarrow> nat \<Rightarrow> (int \<times> bar) list \<Rightarrow> (int \<times> ibar) list" where
  "apply_indicators lib short_window long_window df =
     concat (map (compute_group_indicators lib short_window long_window) (ticker_groups df))"

text \<open>
  \<open>compute_indicators\<close>; \<open>params\<close> is \<open>config['params']\<close>, read with the defaults 20 and
  50 for the two windows.
\<close>

definition compute_indicators ::
    "ta \<Rightarrow> (string \<rightharpoonup> nat) \<Rightarrow> (int \<times> bar) list \<Rightarrow> (int \<times> ibar) list" where
  "compute_indicators lib params df =
     (let short_window = (case params ''short_window'' of None \<Rightarrow> 20 | Some w \<Rightarrow> w);
          long_window = (case params ''long_window'' of None \<Rightarrow> 50 | Some w \<Rightarrow> w)
      in dropna [short_ma, long_ma] (apply_indicators lib short_window long_window df))"

text \<open>
  Example data: indicator series still in warm-up on every row, and a raw bar.
\<close>

definition warming_up :: ta where
  "warming_up =
     \<lparr>RSIIndicator_rsi = (\<lambda>closes. replicate (length closes) None),
      MACD_macd = (\<lambda>closes. replicate (length closes) None),
      MACD_macd_signal = (\<lambda>closes. replicate (length closes) None),
      bollinger_hband = (\<lambda>closes. replicate (length closes) None),
      bollinger_lband = (\<lambda>closes. replicate (length closes) None),
      bollinger_mavg = (\<lambda>closes. replicate (length closes) None)\<rparr>"

definition price_bar :: "string \<Rightarrow> real \<Rightarrow> real \<Rightarrow> bar" where
  "price_bar tk ts c = \<lparr>bar.ticker = tk, timestamp = ts, close = c\<rparr>"

section \<open>Signal evaluation\<close>






section \<open>Trade simulation with risk management\<close>

text \<open>
  The exit logic of one loop iteration (\<open>if ticker in held_positions: ...\<close>). The return
  \<open>pnl_pct\<close> is a quotient by the entry price of the held position, which raises
  \<open>ZeroDivisionError\<close> when that price is 0.
\<close>

definition exit_logic :: "real \<Rightarrow> real \<Rightarrow> sbar \<Rightarrow> sim_state \<Rightarrow> error + sim_state" where
  "exit_logic stop_loss_pct take_profit_pct row s =
     (let date = timestamp row; tk = bar.ticker row; sg = signal row;
          current_price = close row
      in case held_positions s tk of
           None \<Rightarrow> Inr s
         | Some position \<Rightarrow>
             if position.entry_price position = 0 then Inl ZeroDivisionError
             else
               let pnl_pct = (current_price - position.entry_price position)
                               / position.entry_price position;
                   stop_loss_hit = (pnl_pct \<le> - stop_loss_pct);
                   take_profit_hit = (pnl_pct \<ge> take_profit_pct)
               in if sg = - 1 \<or> stop_loss_hit \<or> take_profit_hit then
                    let exit_price = current_price;
                        pnl = pnl_pct * position.cash position
                    in Inr (s\<lparr>held_positions := (held_positions s)(tk := None),
                         trades := trades s @
                           [\<lparr>trade.ticker = tk,
                             trade.entry_datetime = position.entry_datetime position,
                             exit_datetime = date,
                             trade.entry_price = py_round (position.entry_price position) 4,
                             exit_price = py_round exit_price 4,
                             return_pct = py_round (pnl_pct * 100) 4,
                             pnl = py_round pnl 2,
                             allocated_cash = py_round (position.cash position) 2,
                             trade.shares = py_round (position.shares position) 4,
                             holding_ticks =
                               (date - position.entry_datetime position) / (15 * 60),
                             exit_reason =
                               (if sg = - 1 then ''Strategy logic''
                                else if stop_loss_hit then ''Stop loss raised''
                                else ''Stop gain raised'')\<rparr>],
                         sim_state.cash :=
                           sim_state.cash s + (position.cash position + pnl)\<rparr>)
                  else Inr s)"

text \<open>
  The buy logic of one loop iteration, run after the exit logic. The position size is a
  quotient by the close of the bar, which raises \<open>ZeroDivisionError\<close> when the close is 0,
  before the position is stored.
\<close>

definition buy_logic :: "sbar \<Rightarrow> sim_state \<Rightarrow> error + sim_state" where
  "buy_logic row s =
     (let date = timestamp row; tk = bar.ticker row; sg = signal row;
          current_price = close row
      in if sg = 1 \<and> held_positions s tk = None \<and> sim_state.cash s > 0 then
           let cash_per_position = sim_state.cash s
           in if current_price = 0 then Inl ZeroDivisionError
              else
                let position_size = cash_per_position / current_price
                in Inr (s\<lparr>held_positions := (held_positions s)(tk \<mapsto>
                       \<lparr>position.entry_price = current_price,
                        position.entry_datetime = date,
                        position.cash = cash_per_position,
                        position.shares = position_size\<rparr>),
                     sim_state.cash := sim_state.cash s - cash_per_position\<rparr>)
         else Inr s)"

text \<open>
  One iteration of \<open>for idx, row in df.iterrows()\<close>, and the loop; an error ends the run.
\<close>

definition process_row :: "real \<Rightarrow> real \<Rightarrow> sim_state \<Rightarrow> sbar \<Rightarrow> error + sim_state" where
  "process_row stop_loss_pct take_profit_pct s row =
     (case exit_logic stop_loss_pct take_profit_pct row s of
        Inl e \<Rightarrow> Inl e
      | Inr s1 \<Rightarrow> buy_logic row s1)"

fun simulate_loop :: "real \<Rightarrow> real \<Rightarrow> sbar list \<Rightarrow> sim_state \<Rightarrow> error + sim_state" where
  "simulate_loop stop_loss_pct take_profit_pct [] s = Inr s"
| "simulate_loop stop_loss_pct take_profit_pct (row # df) s =
     (case process_row stop_loss_pct take_profit_pct s row of
        Inl e \<Rightarrow> Inl e
      | Inr s' \<Rightarrow> simulate_loop stop_loss_pct take_profit_pct df s')"

text \<open>
  \<open>df.sort_values(['timestamp', 'ticker'])\<close>: ascending by timestamp, then by ticker;
  rows with equal keys keep their order.
\<close>

definition row_key :: "sbar \<Rightarrow> real \<times> string" where
  "row_key row = (timestamp row, bar.ticker row)"

definition sort_values :: "sbar list \<Rightarrow> sbar list" where
  "sort_values df = sort_key row_key df"

definition init_state :: "real \<Rightarrow> sim_state" where
  "init_state initial_cash =
     \<lparr>held_positions = Map.empty, trades = [], sim_state.cash = initial_cash\<rparr>"

text \<open>
  \<open>pd.DataFrame(trades).sort_values(by='entry_datetime')\<close>: a frame built from an empty
  list has no columns, and sorting it by a column name raises \<open>KeyError\<close>. Otherwise the
  trades are sorted by \<open>entry_datetime\<close> ascending (trades with equal \<open>entry_datetime\<close>
  are kept in the order of their exits here; pandas does not fix their order).
\<close>

definition ledger :: "trade list \<Rightarrow> error + trade list" where
  "ledger ts =
     (if ts = [] then Inl (KeyError ''entry_datetime'')
      else Inr (sort_key trade.entry_datetime ts))"

definition simulate_trades_with_risk ::
    "sbar list \<Rightarrow> real \<Rightarrow> config \<Rightarrow> error + trade list" where
  "simulate_trades_with_risk df initial_cash config =
     (case config ''risk'' of
        None \<Rightarrow> Inl (KeyError ''risk'')
      | Some risk \<Rightarrow>
          (case risk ''stop_loss'' of
             None \<Rightarrow> Inl (KeyError ''stop_loss'')
           | Some stop_loss_pct \<Rightarrow>
               (case risk ''take_profit'' of
                  None \<Rightarrow> Inl (KeyError ''take_profit'')
                | Some take_profit_pct \<Rightarrow>
                    (case simulate_loop stop_loss_pct take_profit_pct
                            (sort_values df) (init_state initial_cash) of
                       Inl e \<Rightarrow> Inl e
                     | Inr s \<Rightarrow> ledger (trades s)))))"

text \<open>
  The state after the first \<open>n\<close> rows of the sorted frame have been processed, or the
  error that one of them raised.
\<close>

definition state_after ::
    "real \<Rightarrow> real \<Rightarrow> sbar list \<Rightarrow> real \<Rightarrow> nat \<Rightarrow> error + sim_state" where
  "state_after stop_loss_pct take_profit_pct df initial_cash n =
     simulate_loop stop_loss_pct take_profit_pct (take n (sort_values df))
       (init_state initial_cash)"

text \<open>
  Names for the expressions of the exit logic: the unrealised return of an open position
  at a price (\<open>pnl_pct\<close>) and the condition under which the position is closed.
\<close>

definition pnl_pct :: "position \<Rightarrow> real \<Rightarrow> real" where
  "pnl_pct position current_price =
     (current_price - position.entry_price position) / position.entry_price position"

definition exit_fires :: "real \<Rightarrow> real \<Rightarrow> position \<Rightarrow> sbar \<Rightarrow> bool" where
  "exit_fires stop_loss_pct take_profit_pct position row \<longleftrightarrow>
     signal row = - 1 \<or> pnl_pct position (close row) \<le> - stop_loss_pct
       \<or> pnl_pct position (close row) \<ge> take_profit_pct"

text \<open>The record that the exit logic appends when it closes a position on a row.\<close>

definition exit_trade :: "real \<Rightarrow> position \<Rightarrow> sbar \<Rightarrow> trade" where
  "exit_trade stop_loss_pct p row =
     \<lparr>trade.ticker = bar.ticker row,
      trade.entry_datetime = position.entry_datetime p,
      exit_datetime = timestamp row,
      trade.entry_price = py_round (position.entry_price p) 4,
      exit_price = py_round (close row) 4,
      return_pct = py_round (pnl_pct p (close row) * 100) 4,
      pnl = py_round (pnl_pct p (close row) * position.cash p) 2,
      allocated_cash = py_round (position.cash p) 2,
      trade.shares = py_round (position.shares p) 4,
      holding_ticks = (timestamp row - position.entry_datetime p) / (15 * 60),
      exit_reason =
        (if signal row = - 1 then ''Strategy logic''
         else if pnl_pct p (close row) \<le> - stop_loss_pct then ''Stop loss raised''
         else ''Stop gain raised'')\<rparr>"

text \<open>The three labels the exit logic writes into \<open>exit_reason\<close>.\<close>

definition exit_reasons :: "string set" where
  "exit_reasons = {''Strategy logic'', ''Stop loss raised'', ''Stop gain raised''}"

text \<open>
  Example data: a row with the columns the simulator reads, and the risk section that
  \<open>load_strategy_config\<close> builds by default.
\<close>

definition signal_row :: "string \<Rightarrow> real \<Rightarrow> real \<Rightarrow> int \<Rightarrow> sbar" where
  "signal_row tk ts c sg =
     \<lparr>bar.ticker = tk, timestamp = ts, close = c,
      short_ma = None, long_ma = None, rsi = None, macd = None, macd_signal = None,
      bb_upper = None, bb_lower = None, bb_middle = None,
      buy = (sg = 1), sell = (sg = - 1), signal = sg\<rparr>"

definition default_risk :: config where
  "default_risk = [''risk'' \<mapsto> [''stop_loss'' \<mapsto> 0.05, ''take_profit'' \<mapsto> 0.15]]"

text \<open>A state in which ticker A is held, bought at 100 with all of 1000.\<close>

definition holding_A :: sim_state where
  "holding_A =
     \<lparr>held_positions = [''A'' \<mapsto>
        \<lparr>position.entry_price = 100, position.entry_datetime = 0,
         position.cash = 1000, position.shares = 10\<rparr>],
      trades = [], sim_state.cash = 0\<rparr>"



text \<open>
  Invariants for the order of entry and exit: every open position was entered at a key
  (timestamp, ticker) below the keys of the rows still to come, and every closed trade
  ends after it begins.
\<close>

definition entered_before :: "sim_state \<Rightarrow> sbar list \<Rightarrow> bool" where
  "entered_before s df \<longleftrightarrow>
     (\<forall>tk p. held_positions s tk = Some p \<longrightarrow>
        (\<forall>row\<in>set df. (position.entry_datetime p, tk) < row_key row))"

definition positive_holding :: "sim_state \<Rightarrow> bool" where
  "positive_holding s \<longleftrightarrow>
     (\<forall>t\<in>set (trades s).
        trade.entry_datetime t < exit_datetime t \<and> 0 < holding_ticks t)"

text \<open>
  The Trade that the specification describes for a position opened on \<open>entry_row\<close> with
  \<open>alloc\<close> of cash and closed on \<open>exit_row\<close>: every formula at full precision, rounded
  only in the record (4 decimals for prices, shares and \<open>return_pct\<close>, 2 for \<open>pnl\<close> and
  \<open>allocated_cash\<close>).
\<close>

definition spec_trade :: "sbar \<Rightarrow> sbar \<Rightarrow> real \<Rightarrow> trade \<Rightarrow> bool" where
  "spec_trade entry_row exit_row alloc t \<longleftrightarrow>
     trade.ticker t = bar.ticker entry_row \<and> bar.ticker exit_row = bar.ticker entry_row \<and>
     trade.entry_datetime t = timestamp entry_row \<and>
     exit_datetime t = timestamp exit_row \<and>
     trade.entry_price t = py_round (close entry_row) 4 \<and>
     exit_price t = py_round (close exit_row) 4 \<and>
     return_pct t =
       py_round ((close exit_row - close entry_row) / close entry_row * 100) 4 \<and>
     pnl t =
       py_round ((close exit_row - close entry_row) / close entry_row * 100 / 100 * alloc) 2 \<and>
     allocated_cash t = py_round alloc 2 \<and>
     trade.shares t = py_round (alloc / close entry_row) 4 \<and>
     holding_ticks t = (timestamp exit_row - timestamp entry_row) / 900"

text \<open>
  Invariants for the origin of positions and trades: every open position was opened by a
  row of \<open>R\<close>, every closed trade is the specified trade of two rows of \<open>R\<close>.
\<close>

definition positions_from :: "sbar set \<Rightarrow> sim_state \<Rightarrow> bool" where
  "positions_from R s \<longleftrightarrow>
     (\<forall>tk p. held_positions s tk = Some p \<longrightarrow>
        (\<exists>r\<in>R. bar.ticker r = tk \<and> position.entry_price p = close r \<and>
               position.entry_datetime p = timestamp r \<and>
               position.shares p = position.cash p / close r))"

definition trades_from :: "sbar set \<Rightarrow> sim_state \<Rightarrow> bool" where
  "trades_from R s \<longleftrightarrow>
     (\<forall>t\<in>set (trades s). \<exists>e\<in>R. \<exists>x\<in>R. \<exists>alloc. spec_trade e x alloc t)"

text \<open>
  The cash committed to open positions, and the profit and loss that the exits of a run
  release into cash, one value per exit in the order of the exits: the unrounded
  \<open>pnl = pnl_pct * position['cash']\<close> of the exit logic.
\<close>

definition allocated_total :: "(string \<rightharpoonup> position) \<Rightarrow> real" where
  "allocated_total h = (\<Sum>tk\<in>dom h. position.cash (the (h tk)))"

definition realized_pnl :: "real \<Rightarrow> real \<Rightarrow> sim_state \<Rightarrow> sbar \<Rightarrow> real list" where
  "realized_pnl sl tp s row =
     (case held_positions s (bar.ticker row) of
        None \<Rightarrow> []
      | Some p \<Rightarrow>
          if exit_fires sl tp p row then [pnl_pct p (close row) * position.cash p] else [])"

fun realized_pnls :: "real \<Rightarrow> real \<Rightarrow> sim_state \<Rightarrow> sbar list \<Rightarrow> real list" where
  "realized_pnls sl tp s [] = []"
| "realized_pnls sl tp s (row # df) =
     realized_pnl sl tp s row @
     (case process_row sl tp s row of
        Inl e \<Rightarrow> []
      | Inr s' \<Rightarrow> realized_pnls sl tp s' df)"

text \<open>
  Invariant of the loop: either nothing is held, or exactly one ticker is held and no
  cash is left.
\<close>

definition all_in :: "sim_state \<Rightarrow> bool" where
  "all_in s \<longleftrightarrow>
     held_positions s = Map.empty \<or>
     (\<exists>tk p. held_positions s = [tk \<mapsto> p] \<and> sim_state.cash s = 0)"

section \<open>The loop body\<close>

lemma exit_logic_None:
  "held_positions s (bar.ticker row) = None \<Longrightarrow> exit_logic sl tp row s = Inr s"
  by (simp add: exit_logic_def)

lemma exit_logic_zero:
  "held_positions s (bar.ticker row) = Some p \<Longrightarrow> position.entry_price p = 0 \<Longrightarrow>
   exit_logic sl tp row s = Inl ZeroDivisionError"
  by (simp add: exit_logic_def)

lemma exit_logic_hold:
  "held_positions s (bar.ticker row) = Some p \<Longrightarrow> position.entry_price p \<noteq> 0 \<Longrightarrow>
   \<not> exit_fires sl tp p row \<Longrightarrow> exit_logic sl tp row s = Inr s"
  by (simp add: exit_logic_def exit_fires_def pnl_pct_def Let_def)

lemma exit_logic_fire:
  assumes "held_positions s (bar.ticker row) = Some p" and "position.entry_price p \<noteq> 0"
    and "exit_fires sl tp p row"
  shows "exit_logic sl tp row s =
     Inr (s\<lparr>held_positions := (held_positions s)(bar.ticker row := None),
       trades := trades s @ [exit_trade sl p row],
       sim_state.cash :=
         sim_state.cash s + (position.cash p + pnl_pct p (close row) * position.cash p)\<rparr>)"
  using assms by (simp add: exit_logic_def exit_fires_def pnl_pct_def exit_trade_def Let_def)

lemma exit_logic_fired:
  assumes "exit_logic sl tp row s = Inr s1"
    and "held_positions s (bar.ticker row) = Some p" and "position.entry_price p \<noteq> 0"
    and "exit_fires sl tp p row"
  shows "held_positions s1 = (held_positions s)(bar.ticker row := None)"
    and "trades s1 = trades s @ [exit_trade sl p row]"
    and "sim_state.cash s1 =
      sim_state.cash s + (position.cash p + pnl_pct p (close row) * position.cash p)"
  using assms(1) unfolding exit_logic_fire [OF assms(2-4)] by auto

text \<open>The two ways in which the exit logic returns.\<close>

lemma exit_logic_InrE:
  assumes "exit_logic sl tp row s = Inr s1"
  obtains (same) "s1 = s"
    "\<forall>p. held_positions s (bar.ticker row) = Some p \<longrightarrow> \<not> exit_fires sl tp p row"
  | (fired) p where "held_positions s (bar.ticker row) = Some p"
      "position.entry_price p \<noteq> 0" "exit_fires sl tp p row"
proof (cases "held_positions s (bar.ticker row)")
  case None
  with assms same show thesis by (simp add: exit_logic_None)
next
  case (Some p)
  show thesis
  proof (cases "position.entry_price p = 0")
    case True
    with assms Some show thesis by (simp add: exit_logic_zero)
  next
    case nz: False
    show thesis
    proof (cases "exit_fires sl tp p row")
      case True
      with Some nz fired show thesis by blast
    next
      case False
      with assms Some nz same show thesis by (simp add: exit_logic_hold)
    qed
  qed
qed

lemma exit_logic_error: "exit_logic sl tp row s = Inl e \<Longrightarrow> e = ZeroDivisionError"
  by (auto simp: exit_logic_def Let_def split: option.splits if_splits)

lemma buy_logic_enter:
  assumes "signal row = 1" and "held_positions s (bar.ticker row) = None"
    and "sim_state.cash s > 0" and "close row \<noteq> 0"
  shows "buy_logic row s =
     Inr (s\<lparr>held_positions := (held_positions s)(bar.ticker row \<mapsto>
          \<lparr>position.entry_price = close row,
           position.entry_datetime = timestamp row,
           position.cash = sim_state.cash s,
           position.shares = sim_state.cash s / close row\<rparr>),
       sim_state.cash := 0\<rparr>)"
  using assms by (simp add: buy_logic_def Let_def)

lemma buy_logic_zero:
  assumes "signal row = 1" and "held_positions s (bar.ticker row) = None"
    and "sim_state.cash s > 0" and "close row = 0"
  shows "buy_logic row s = Inl ZeroDivisionError"
  using assms by (simp add: buy_logic_def Let_def)

lemma buy_logic_skip:
  "\<not> (signal row = 1 \<and> held_positions s (bar.ticker row) = None \<and> sim_state.cash s > 0)
   \<Longrightarrow> buy_logic row s = Inr s"
  by (auto simp: buy_logic_def)

text \<open>The two ways in which the buy logic returns.\<close>

lemma buy_logic_InrE:
  assumes "buy_logic row s = Inr s2"
  obtains (skip) "s2 = s"
    "\<not> (signal row = 1 \<and> held_positions s (bar.ticker row) = None \<and> sim_state.cash s > 0)"
  | (enter) "signal row = 1" "held_positions s (bar.ticker row) = None"
      "sim_state.cash s > 0" "close row \<noteq> 0"
      "s2 = s\<lparr>held_positions := (held_positions s)(bar.ticker row \<mapsto>
          \<lparr>position.entry_price = close row,
           position.entry_datetime = timestamp row,
           position.cash = sim_state.cash s,
           position.shares = sim_state.cash s / close row\<rparr>),
         sim_state.cash := 0\<rparr>"
proof (cases "signal row = 1 \<and> held_positions s (bar.ticker row) = None
                \<and> sim_state.cash s > 0")
  case False
  with assms skip show thesis by (simp add: buy_logic_skip)
next
  case True
  show thesis
  proof (cases "close row = 0")
    case True
    with \<open>signal row = 1 \<and> _\<close> assms show thesis by (simp add: buy_logic_zero)
  next
    case False
    with True assms enter show thesis by (simp add: buy_logic_enter)
  qed
qed

lemma buy_logic_error: "buy_logic row s = Inl e \<Longrightarrow> e = ZeroDivisionError"
  by (auto simp: buy_logic_def Let_def split: if_splits)

lemma trades_buy_logic: "buy_logic row s = Inr s2 \<Longrightarrow> trades s2 = trades s"
  by (erule buy_logic_InrE) simp_all

lemma process_row_InrE:
  assumes "process_row sl tp s row = Inr s2"
  obtains s1 where "exit_logic sl tp row s = Inr s1" and "buy_logic row s1 = Inr s2"
  using assms by (auto simp: process_row_def split: sum.splits)

lemma process_row_error: "process_row sl tp s row = Inl e \<Longrightarrow> e = ZeroDivisionError"
  by (auto simp: process_row_def split: sum.splits dest: exit_logic_error buy_logic_error)

lemma simulate_loop_error: "simulate_loop sl tp df s = Inl e \<Longrightarrow> e = ZeroDivisionError"
  by (induction df arbitrary: s) (auto split: sum.splits dest: process_row_error)

text \<open>A property that every iteration keeps holds when the loop returns.\<close>

lemma simulate_loop_invariant:
  assumes step: "\<And>s row s'. I s \<Longrightarrow> process_row sl tp s row = Inr s' \<Longrightarrow> I s'"
    and "I s" and "simulate_loop sl tp df s = Inr s'"
  shows "I s'"
  using assms(2,3)
proof (induction df arbitrary: s)
  case Nil
  then show ?case by simp
next
  case (Cons row df)
  from Cons.prems(2) obtain s2 where p: "process_row sl tp s row = Inr s2"
    and l: "simulate_loop sl tp df s2 = Inr s'"
    by (auto split: sum.splits)
  from step [OF Cons.prems(1) p] l show ?case by (rule Cons.IH)
qed

text \<open>What a returned ledger is: the closed trades of the whole loop, sorted.\<close>

lemma simulate_Inr:
  assumes "simulate_trades_with_risk df c config = Inr l"
  obtains risk sl tp s where "config ''risk'' = Some risk" and "risk ''stop_loss'' = Some sl"
    and "risk ''take_profit'' = Some tp"
    and "state_after sl tp df c (length df) = Inr s"
    and "trades s \<noteq> []"
    and "l = sort_key trade.entry_datetime (trades s)"
proof -
  have len: "length (sort_values df) = length df"
    by (simp add: sort_values_def)
  from assms that show thesis
    by (auto simp: simulate_trades_with_risk_def ledger_def state_after_def len
        split: option.splits sum.splits if_splits)
qed

lemmas sim_eval =
  simulate_trades_with_risk_def state_after_def default_risk_def holding_A_def
  sort_values_def row_key_def signal_row_def process_row_def exit_logic_def
  buy_logic_def init_state_def ledger_def Let_def py_round_def round_half_even_def
  pnl_pct_def exit_fires_def

section \<open>At most one open position\<close>

lemma all_in_init: "all_in (init_state c)"
  by (simp add: all_in_def init_state_def)

lemma all_in_exit_logic:
  assumes "all_in s" and "exit_logic sl tp row s = Inr s1"
  shows "all_in s1"
  using assms(2)
proof (cases rule: exit_logic_InrE)
  case same
  then show ?thesis using assms(1) by simp
next
  case (fired p)
  from fired(1) have "held_positions s \<noteq> Map.empty" by auto
  with assms(1) obtain tk q where h: "held_positions s = [tk \<mapsto> q]"
    by (auto simp: all_in_def)
  from fired(1) h have tk: "tk = bar.ticker row"
    by (auto split: if_splits)
  have e: "(held_positions s)(bar.ticker row := None) = Map.empty"
    using h tk by simp
  have "held_positions s1 = Map.empty"
    using exit_logic_fired(1) [OF assms(2) fired] e by simp
  then show ?thesis by (simp add: all_in_def)
qed

lemma all_in_buy_logic:
  assumes "all_in s" and "buy_logic row s = Inr s2"
  shows "all_in s2"
  using assms(2)
proof (cases rule: buy_logic_InrE)
  case skip
  then show ?thesis using assms(1) by simp
next
  case enter
  from enter(3) have "sim_state.cash s \<noteq> 0" by simp
  with assms(1) have "held_positions s = Map.empty"
    by (auto simp: all_in_def)
  with enter(5) show ?thesis
    by (auto simp: all_in_def)
qed

lemma all_in_process_row:
  "all_in s \<Longrightarrow> process_row sl tp s row = Inr s' \<Longrightarrow> all_in s'"
  by (erule process_row_InrE) (blast intro: all_in_exit_logic all_in_buy_logic)

lemma all_in_simulate_loop:
  "all_in s \<Longrightarrow> simulate_loop sl tp df s = Inr s' \<Longrightarrow> all_in s'"
  by (rule simulate_loop_invariant [where I = all_in]) (auto intro: all_in_process_row)

lemma all_in_state_after: "state_after sl tp df c n = Inr s \<Longrightarrow> all_in s"
  unfolding state_after_def by (rule all_in_simulate_loop [OF all_in_init])

lemma all_in_card:
  assumes "all_in s"
  shows "finite (dom (held_positions s)) \<and> card (dom (held_positions s)) \<le> 1"
  using assms by (auto simp: all_in_def)

lemma state_after_error: "state_after sl tp df c n = Inl e \<Longrightarrow> e = ZeroDivisionError"
  unfolding state_after_def by (rule simulate_loop_error)

text \<open>
  C2. After every processed bar of \<open>simulate_trades_with_risk\<close> (after the first \<open>n\<close> rows
  of the sorted frame, for every \<open>n\<close>, every frame, every initial cash and every pair of
  risk thresholds) the held-positions dictionary has at most one entry; the only other
  outcome is that the run has ended before with \<open>ZeroDivisionError\<close>.
\<close>

theorem single_open_position:
  "(case state_after sl tp df c n of
      Inl e \<Rightarrow> e = ZeroDivisionError
    | Inr s \<Rightarrow> finite (dom (held_positions s)) \<and> card (dom (held_positions s)) \<le> 1)"
proof (cases "state_after sl tp df c n")
  case (Inl e)
  then show ?thesis by (simp add: state_after_error)
next
  case (Inr s)
  then have "all_in s" by (rule all_in_state_after)
  from all_in_card [OF this] show ?thesis by (simp add: Inr)
qed

text \<open>
  B and A both signal Buy at time 0 and B again at time 900: after the three bars only A
  is held.
\<close>

theorem single_open_position_witness:
  "state_after 0.05 0.15
      [signal_row ''B'' 0 50 1, signal_row ''A'' 0 100 1, signal_row ''B'' 900 50 1] 1000 3
     = Inr \<lparr>held_positions = [''A'' \<mapsto>
              \<lparr>position.entry_price = 100, position.entry_datetime = 0,
               position.cash = 1000, position.shares = 10\<rparr>],
            trades = [], sim_state.cash = 0\<rparr> \<and>
   card (dom [''A'' \<mapsto>
              \<lparr>position.entry_price = 100, position.entry_datetime = 0,
               position.cash = 1000, position.shares = 10\<rparr>]) \<le> 1"
  using single_open_position [of "0.05" "0.15"
      "[signal_row ''B'' 0 50 1, signal_row ''A'' 0 100 1, signal_row ''B'' 900 50 1]" 1000 3]
  by (simp add: sim_eval)


section \<open>Exit reasons\<close>

lemma exit_reason_exit_trade:
  "exit_reason (exit_trade sl p row) =
     (if signal row = - 1 then ''Strategy logic''
      else if pnl_pct p (close row) \<le> - sl then ''Stop loss raised''
      else ''Stop gain raised'')"
  by (simp add: exit_trade_def)

lemma buy_logic_returns: "close row \<noteq> 0 \<Longrightarrow> \<exists>s2. buy_logic row s = Inr s2"
  by (simp add: buy_logic_def Let_def)

lemma exit_reasons_process_row:
  assumes "\<forall>t\<in>set (trades s). exit_reason t \<in> exit_reasons"
    and "process_row sl tp s row = Inr s'"
  shows "\<forall>t\<in>set (trades s'). exit_reason t \<in> exit_reasons"
proof -
  from assms(2) obtain s1 where e: "exit_logic sl tp row s = Inr s1"
    and b: "buy_logic row s1 = Inr s'"
    by (rule process_row_InrE)
  from e have "\<forall>t\<in>set (trades s1). exit_reason t \<in> exit_reasons"
  proof (cases rule: exit_logic_InrE)
    case same
    then show ?thesis using assms(1) by simp
  next
    case (fired p)
    show ?thesis
      using assms(1)
      by (simp add: exit_logic_fired(2) [OF e fired] exit_reason_exit_trade exit_reasons_def)
  qed
  then show ?thesis by (simp add: trades_buy_logic [OF b])
qed

lemma exit_reasons_state_after:
  assumes "state_after sl tp df c n = Inr s"
  shows "\<forall>t\<in>set (trades s). exit_reason t \<in> exit_reasons"
proof (rule simulate_loop_invariant
    [where I = "\<lambda>s. \<forall>t\<in>set (trades s). exit_reason t \<in> exit_reasons"])
  show "simulate_loop sl tp (take n (sort_values df)) (init_state c) = Inr s"
    using assms by (simp add: state_after_def)
  show "\<forall>t\<in>set (trades (init_state c)). exit_reason t \<in> exit_reasons"
    by (simp add: init_state_def)
qed (rule exit_reasons_process_row)

text \<open>
  C3, as the code has it. When a held ticker's bar closes the position (the position
  has a non-zero entry price, as every position that the loop opens has), the exit
  logic appends one trade, which carries the first matching label: \<open>Strategy logic\<close> if
  the signal is Sell (\<open>- 1\<close>), whatever the thresholds say; otherwise
  \<open>Stop loss raised\<close> if the return is at or below minus the stop-loss fraction; otherwise
  \<open>Stop gain raised\<close>, and then the return is at or above the take-profit fraction. The
  iteration returns with these trades unless the buy logic raises, which it does not on
  a bar with a non-zero close. Every trade of a returned ledger carries one of these
  three labels. The priority is the one the claim states; the labels are the code's
  strings, not \<open>signal\<close>, \<open>stop-loss\<close> and \<open>take-profit\<close>.
\<close>

theorem exit_reason_first_match:
  "(held_positions s (bar.ticker row) = Some p \<and> position.entry_price p \<noteq> 0 \<and>
    exit_fires sl tp p row \<longrightarrow>
      (\<exists>s1 t. exit_logic sl tp row s = Inr s1 \<and> trades s1 = trades s @ [t] \<and>
           exit_reason t =
             (if signal row = - 1 then ''Strategy logic''
              else if pnl_pct p (close row) \<le> - sl then ''Stop loss raised''
              else ''Stop gain raised'') \<and>
           (exit_reason t = ''Stop gain raised'' \<longrightarrow> tp \<le> pnl_pct p (close row)) \<and>
           (\<forall>s2. process_row sl tp s row = Inr s2 \<longrightarrow> trades s2 = trades s @ [t]) \<and>
           (close row \<noteq> 0 \<longrightarrow> (\<exists>s2. process_row sl tp s row = Inr s2)))) \<and>
   (simulate_trades_with_risk df c config = Inr l \<longrightarrow>
      (\<forall>t\<in>set l. exit_reason t \<in> exit_reasons))"
proof (intro conjI impI)
  assume a: "held_positions s (bar.ticker row) = Some p \<and> position.entry_price p \<noteq> 0 \<and>
    exit_fires sl tp p row"
  then have h: "held_positions s (bar.ticker row) = Some p"
    and nz: "position.entry_price p \<noteq> 0" and f: "exit_fires sl tp p row"
    by simp_all
  obtain s1 where e: "exit_logic sl tp row s = Inr s1"
    using exit_logic_fire [OF h nz f] by simp
  have t: "trades s1 = trades s @ [exit_trade sl p row]"
    by (rule exit_logic_fired(2) [OF e h nz f])
  have gain: "exit_reason (exit_trade sl p row) = ''Stop gain raised'' \<longrightarrow>
      tp \<le> pnl_pct p (close row)"
    using f by (auto simp: exit_reason_exit_trade exit_fires_def split: if_splits)
  have ret: "\<forall>s2. process_row sl tp s row = Inr s2 \<longrightarrow>
      trades s2 = trades s @ [exit_trade sl p row]"
    using e t by (auto simp: process_row_def dest: trades_buy_logic)
  have total: "close row \<noteq> 0 \<longrightarrow> (\<exists>s2. process_row sl tp s row = Inr s2)"
    using e by (auto simp: process_row_def dest: buy_logic_returns)
  from e t gain ret total
  show "\<exists>s1 t. exit_logic sl tp row s = Inr s1 \<and> trades s1 = trades s @ [t] \<and>
           exit_reason t =
             (if signal row = - 1 then ''Strategy logic''
              else if pnl_pct p (close row) \<le> - sl then ''Stop loss raised''
              else ''Stop gain raised'') \<and>
           (exit_reason t = ''Stop gain raised'' \<longrightarrow> tp \<le> pnl_pct p (close row)) \<and>
           (\<forall>s2. process_row sl tp s row = Inr s2 \<longrightarrow> trades s2 = trades s @ [t]) \<and>
           (close row \<noteq> 0 \<longrightarrow> (\<exists>s2. process_row sl tp s row = Inr s2))"
    using exit_reason_exit_trade [of sl p row] by blast
next
  assume "simulate_trades_with_risk df c config = Inr l"
  then obtain sl' tp' s' where "state_after sl' tp' df c (length df) = Inr s'"
    and "l = sort_key trade.entry_datetime (trades s')"
    by (rule simulate_Inr)
  then show "\<forall>t\<in>set l. exit_reason t \<in> exit_reasons"
    using exit_reasons_state_after [of sl' tp' df c "length df" s'] by simp
qed

text \<open>
  A Sell signal that coincides with a stop-loss breach (bought at 100, now 90, stop loss
  5 per cent) is labelled \<open>Strategy logic\<close>; a breach of the stop loss without a Sell
  signal is labelled \<open>Stop loss raised\<close>.
\<close>

theorem exit_reason_first_match_witness:
  "held_positions holding_A (bar.ticker (signal_row ''A'' 900 90 (- 1)))
     = Some \<lparr>position.entry_price = 100, position.entry_datetime = 0,
             position.cash = 1000, position.shares = 10\<rparr> \<and>
   pnl_pct \<lparr>position.entry_price = 100, position.entry_datetime = 0,
            position.cash = 1000, position.shares = 10\<rparr>
     (close (signal_row ''A'' 900 90 (- 1))) \<le> - 0.05 \<and>
   map_sum id (\<lambda>s. map exit_reason (trades s))
     (process_row 0.05 0.15 holding_A (signal_row ''A'' 900 90 (- 1)))
     = Inr [''Strategy logic''] \<and>
   simulate_trades_with_risk
      [signal_row ''A'' 0 100 1, signal_row ''A'' 900 94 0] 1000 default_risk
     = Inr [\<lparr>trade.ticker = ''A'', trade.entry_datetime = 0, exit_datetime = 900,
             trade.entry_price = 100, exit_price = 94, return_pct = - 6, pnl = - 60,
             allocated_cash = 1000, trade.shares = 10, holding_ticks = 1,
             exit_reason = ''Stop loss raised''\<rparr>]"
  using exit_reason_first_match [where s = holding_A
      and row = "signal_row ''A'' 900 90 (- 1)"
      and p = "\<lparr>position.entry_price = 100, position.entry_datetime = 0,
        position.cash = 1000, position.shares = 10\<rparr>" and sl = "0.05" and tp = "0.15"
      and df = "[signal_row ''A'' 0 100 1, signal_row ''A'' 900 94 0]" and c = 1000
      and config = default_risk]
  by (simp add: sim_eval)

text \<open>
  The claim's labels are not the code's: the run that buys A at 100 and meets a Sell
  signal at 90, below the stop-loss threshold, records \<open>Strategy logic\<close>, not \<open>signal\<close>.
\<close>

theorem exit_reason_label_counterexample:
  "map_sum id (map exit_reason)
     (simulate_trades_with_risk
        [signal_row ''A'' 0 100 1, signal_row ''A'' 900 90 (- 1)] 1000 default_risk)
     = Inr [''Strategy logic''] \<and>
   map_sum id (map exit_reason)
     (simulate_trades_with_risk
        [signal_row ''A'' 0 100 1, signal_row ''A'' 900 90 (- 1)] 1000 default_risk)
     \<noteq> Inr [''signal'']"
  by (simp add: sim_eval)

section \<open>A run without exits\<close>







section \<open>Exit after entry\<close>

lemma less_row_key: "(a, tk) < row_key row \<Longrightarrow> bar.ticker row = tk \<Longrightarrow> a < timestamp row"
  by (simp add: row_key_def)

lemma entered_before_exit_logic:
  assumes "entered_before s (row # df)" and "positive_holding s"
    and "exit_logic sl tp row s = Inr s1"
  shows "entered_before s1 (row # df) \<and> positive_holding s1"
  using assms(3)
proof (cases rule: exit_logic_InrE)
  case same
  then show ?thesis using assms(1,2) by simp
next
  case (fired p)
  note f = exit_logic_fired [OF assms(3) fired]
  from assms(1) fired(1) have "(position.entry_datetime p, bar.ticker row) < row_key row"
    by (simp add: entered_before_def)
  then have lt: "position.entry_datetime p < timestamp row"
    by (rule less_row_key) simp
  have e: "entered_before s1 (row # df)"
    using assms(1) unfolding entered_before_def f(1)
    by (simp split: if_splits)
  have "positive_holding s1"
    using assms(2) lt unfolding positive_holding_def f(2)
    by (simp add: exit_trade_def)
  with e show ?thesis by simp
qed

lemma entered_before_buy_logic:
  assumes "entered_before s (row # df)" and "\<forall>r\<in>set df. row_key row < row_key r"
    and "buy_logic row s = Inr s2"
  shows "entered_before s2 df"
  using assms(3)
proof (cases rule: buy_logic_InrE)
  case skip
  then show ?thesis using assms(1) by (simp add: entered_before_def)
next
  case enter
  show ?thesis
    using assms(1,2) unfolding entered_before_def enter(5)
    by (auto simp: row_key_def split: if_splits)
qed

lemma positive_holding_simulate_loop:
  assumes "sorted_wrt (<) (map row_key df)" and "entered_before s df"
    and "positive_holding s" and "simulate_loop sl tp df s = Inr s'"
  shows "positive_holding s'"
  using assms
proof (induction df arbitrary: s)
  case Nil
  then show ?case by simp
next
  case (Cons row df)
  from Cons.prems(1) have later: "\<forall>r\<in>set df. row_key row < row_key r"
    and sorted: "sorted_wrt (<) (map row_key df)"
    by simp_all
  from Cons.prems(4) obtain s2 where "process_row sl tp s row = Inr s2"
    and l: "simulate_loop sl tp df s2 = Inr s'"
    by (auto split: sum.splits)
  then obtain s1 where x: "exit_logic sl tp row s = Inr s1" and b: "buy_logic row s1 = Inr s2"
    by (auto elim: process_row_InrE)
  from entered_before_exit_logic [OF Cons.prems(2,3) x]
  have e: "entered_before s1 (row # df)" and p: "positive_holding s1"
    by simp_all
  have e': "entered_before s2 df"
    by (rule entered_before_buy_logic [OF e later b])
  have p': "positive_holding s2"
    using p by (simp add: positive_holding_def trades_buy_logic [OF b])
  show ?case
    by (rule Cons.IH [OF sorted e' p' l])
qed

lemma strictly_sorted_sort_values:
  assumes "distinct (map row_key df)"
  shows "sorted_wrt (<) (map row_key (sort_values df))"
proof -
  have "distinct (map row_key (sort_values df))"
    using assms by (simp add: sort_values_def distinct_map)
  moreover have "sorted (map row_key (sort_values df))"
    by (simp add: sort_values_def)
  ultimately show ?thesis
    by (simp add: strict_sorted_iff)
qed

text \<open>
  C10. When no (timestamp, ticker) pair occurs twice in the frame, every trade of the
  returned ledger has its exit timestamp strictly after its entry timestamp, and a
  positive number of holding ticks.
\<close>

theorem exit_after_entry:
  assumes "distinct (map row_key df)"
    and "simulate_trades_with_risk df c config = Inr l"
  shows "\<forall>t\<in>set l. trade.entry_datetime t < exit_datetime t \<and> 0 < holding_ticks t"
proof -
  from assms(2) obtain sl tp s where s: "state_after sl tp df c (length df) = Inr s"
    and l: "l = sort_key trade.entry_datetime (trades s)"
    by (rule simulate_Inr)
  have len: "length (sort_values df) = length df"
    by (simp add: sort_values_def)
  from s have run: "simulate_loop sl tp (sort_values df) (init_state c) = Inr s"
    by (simp add: state_after_def len)
  have "positive_holding s"
    by (rule positive_holding_simulate_loop
        [OF strictly_sorted_sort_values [OF assms(1)] _ _ run])
      (simp_all add: entered_before_def positive_holding_def init_state_def)
  then show ?thesis
    by (simp add: l positive_holding_def)
qed

text \<open>
  A is bought at time 0 with the stop loss already breached at entry (threshold 0): the
  position is closed on the next bar, 900 seconds later, one tick.
\<close>

theorem exit_after_entry_witness:
  "distinct (map row_key [signal_row ''A'' 0 100 1, signal_row ''A'' 900 100 0]) \<and>
   simulate_trades_with_risk [signal_row ''A'' 0 100 1, signal_row ''A'' 900 100 0] 1000
      [''risk'' \<mapsto> [''stop_loss'' \<mapsto> 0, ''take_profit'' \<mapsto> 0.15]]
     = Inr [\<lparr>trade.ticker = ''A'', trade.entry_datetime = 0, exit_datetime = 900,
             trade.entry_price = 100, exit_price = 100, return_pct = 0, pnl = 0,
             allocated_cash = 1000, trade.shares = 10, holding_ticks = 1,
             exit_reason = ''Stop loss raised''\<rparr>]"
proof -
  have d: "distinct (map row_key [signal_row ''A'' 0 100 1, signal_row ''A'' 900 100 0])"
    by (simp add: row_key_def signal_row_def)
  have r: "simulate_trades_with_risk [signal_row ''A'' 0 100 1, signal_row ''A'' 900 100 0]
      1000 [''risk'' \<mapsto> [''stop_loss'' \<mapsto> 0, ''take_profit'' \<mapsto> 0.15]]
     = Inr [\<lparr>trade.ticker = ''A'', trade.entry_datetime = 0, exit_datetime = 900,
             trade.entry_price = 100, exit_price = 100, return_pct = 0, pnl = 0,
             allocated_cash = 1000, trade.shares = 10, holding_ticks = 1,
             exit_reason = ''Stop loss raised''\<rparr>]"
    by (simp add: sim_eval)
  show ?thesis
    using d r exit_after_entry [OF d r] by simp
qed

section \<open>Processing order and entry\<close>

lemma all_in_other:
  assumes "all_in s" and "held_positions s x \<noteq> None" and "y \<noteq> x"
  shows "held_positions s y = None"
proof -
  from assms(1,2) obtain tk p where h: "held_positions s = [tk \<mapsto> p]"
    by (auto simp: all_in_def)
  with assms(2) have "tk = x" by (auto split: if_splits)
  with h assms(3) show ?thesis by simp
qed

lemma process_row_entry:
  assumes "exit_logic sl tp row s = Inr s1"
  shows "process_row sl tp s row =
     (if signal row = 1 \<and> held_positions s1 (bar.ticker row) = None
           \<and> sim_state.cash s1 > 0
      then if close row = 0 then Inl ZeroDivisionError
           else Inr (s1\<lparr>held_positions := (held_positions s1)(bar.ticker row \<mapsto>
                  \<lparr>position.entry_price = close row,
                   position.entry_datetime = timestamp row,
                   position.cash = sim_state.cash s1,
                   position.shares = sim_state.cash s1 / close row\<rparr>),
                sim_state.cash := 0\<rparr>)
      else Inr s1)"
  using assms by (simp add: process_row_def buy_logic_def Let_def)

lemma first_buyer_takes_all:
  assumes "held_positions s = Map.empty" and "sim_state.cash s > 0" and "signal a = 1"
    and "close a \<noteq> 0"
  shows "process_row sl tp s a =
     Inr (s\<lparr>held_positions := [bar.ticker a \<mapsto>
          \<lparr>position.entry_price = close a,
           position.entry_datetime = timestamp a,
           position.cash = sim_state.cash s,
           position.shares = sim_state.cash s / close a\<rparr>],
       sim_state.cash := 0\<rparr>)"
  using assms by (simp add: process_row_def exit_logic_None buy_logic_enter)

lemma second_buyer_ignored:
  assumes "held_positions s1 (bar.ticker b) = None" and "sim_state.cash s1 = 0"
  shows "process_row sl tp s1 b = Inr s1"
proof -
  have "exit_logic sl tp b s1 = Inr s1"
    using assms(1) by (rule exit_logic_None)
  moreover have "buy_logic b s1 = Inr s1"
    using assms(2) by (simp add: buy_logic_skip)
  ultimately show ?thesis
    by (simp add: process_row_def)
qed

text \<open>
  C4, as the code has it. The loop runs over the rows sorted by (timestamp, ticker)
  ascending (a permutation of the frame). In each iteration, after the exit logic, a
  position for the row's ticker is opened exactly when the signal is Buy (\<open>1\<close>), the
  ticker is not held, cash is positive and the close is not 0; the position takes all
  the cash (\<open>cash\<close> = the cash, \<open>shares\<close> = cash / close, \<open>entry_price\<close> = close,
  \<open>entry_datetime\<close> = timestamp) and cash becomes 0. When the first three conditions hold
  and the close is 0, the iteration raises \<open>ZeroDivisionError\<close> and opens nothing;
  otherwise the buy logic changes nothing. Hence, when nothing is held, cash is positive
  and rows \<open>a\<close> and \<open>b\<close> carry the same timestamp and a Buy signal each, with the ticker of
  \<open>a\<close> before that of \<open>b\<close> and a non-zero close on \<open>a\<close>: \<open>a\<close> is processed first and
  receives all the cash, the row \<open>b\<close> changes nothing, and after any further rows \<open>b\<close>'s
  ticker is not held as long as \<open>a\<close>'s ticker is.
\<close>

theorem entry_takes_all_cash:
  "sorted (map row_key (sort_values df)) \<and> mset (sort_values df) = mset df \<and>
   (exit_logic sl tp row s = Inr se \<longrightarrow>
      process_row sl tp s row =
        (if signal row = 1 \<and> held_positions se (bar.ticker row) = None
              \<and> sim_state.cash se > 0
         then if close row = 0 then Inl ZeroDivisionError
              else Inr (se\<lparr>held_positions := (held_positions se)(bar.ticker row \<mapsto>
                     \<lparr>position.entry_price = close row,
                      position.entry_datetime = timestamp row,
                      position.cash = sim_state.cash se,
                      position.shares = sim_state.cash se / close row\<rparr>),
                   sim_state.cash := 0\<rparr>)
         else Inr se)) \<and>
   (held_positions s = Map.empty \<and> sim_state.cash s > 0 \<and>
    timestamp a = timestamp b \<and> bar.ticker a < bar.ticker b \<and>
    signal a = 1 \<and> signal b = 1 \<and> close a \<noteq> 0 \<longrightarrow>
      sort_values [b, a] = [a, b] \<and>
      process_row sl tp s a =
        Inr (s\<lparr>held_positions := [bar.ticker a \<mapsto>
             \<lparr>position.entry_price = close a,
              position.entry_datetime = timestamp a,
              position.cash = sim_state.cash s,
              position.shares = sim_state.cash s / close a\<rparr>],
          sim_state.cash := 0\<rparr>) \<and>
      process_row sl tp
        (s\<lparr>held_positions := [bar.ticker a \<mapsto>
             \<lparr>position.entry_price = close a,
              position.entry_datetime = timestamp a,
              position.cash = sim_state.cash s,
              position.shares = sim_state.cash s / close a\<rparr>],
          sim_state.cash := 0\<rparr>) b =
        Inr (s\<lparr>held_positions := [bar.ticker a \<mapsto>
             \<lparr>position.entry_price = close a,
              position.entry_datetime = timestamp a,
              position.cash = sim_state.cash s,
              position.shares = sim_state.cash s / close a\<rparr>],
          sim_state.cash := 0\<rparr>) \<and>
      (\<forall>rest s'. simulate_loop sl tp ([a, b] @ rest) s = Inr s' \<longrightarrow>
         held_positions s' (bar.ticker a) \<noteq> None \<longrightarrow>
         held_positions s' (bar.ticker b) = None))"
proof (intro conjI impI allI)
  show "sorted (map row_key (sort_values df))"
    by (simp add: sort_values_def)
  show "mset (sort_values df) = mset df"
    by (simp add: sort_values_def)
next
  assume "exit_logic sl tp row s = Inr se"
  then show "process_row sl tp s row =
        (if signal row = 1 \<and> held_positions se (bar.ticker row) = None
              \<and> sim_state.cash se > 0
         then if close row = 0 then Inl ZeroDivisionError
              else Inr (se\<lparr>held_positions := (held_positions se)(bar.ticker row \<mapsto>
                     \<lparr>position.entry_price = close row,
                      position.entry_datetime = timestamp row,
                      position.cash = sim_state.cash se,
                      position.shares = sim_state.cash se / close row\<rparr>),
                   sim_state.cash := 0\<rparr>)
         else Inr se)"
    by (rule process_row_entry)
next
  assume a: "held_positions s = Map.empty \<and> sim_state.cash s > 0 \<and>
    timestamp a = timestamp b \<and> bar.ticker a < bar.ticker b \<and>
    signal a = 1 \<and> signal b = 1 \<and> close a \<noteq> 0"
  then show "sort_values [b, a] = [a, b]"
    by (auto simp: sort_values_def row_key_def)
  from a show "process_row sl tp s a =
        Inr (s\<lparr>held_positions := [bar.ticker a \<mapsto>
             \<lparr>position.entry_price = close a,
              position.entry_datetime = timestamp a,
              position.cash = sim_state.cash s,
              position.shares = sim_state.cash s / close a\<rparr>],
          sim_state.cash := 0\<rparr>)"
    by (simp add: first_buyer_takes_all)
  from a have ne: "bar.ticker b \<noteq> bar.ticker a" by auto
  then show "process_row sl tp
        (s\<lparr>held_positions := [bar.ticker a \<mapsto>
             \<lparr>position.entry_price = close a,
              position.entry_datetime = timestamp a,
              position.cash = sim_state.cash s,
              position.shares = sim_state.cash s / close a\<rparr>],
          sim_state.cash := 0\<rparr>) b =
        Inr (s\<lparr>held_positions := [bar.ticker a \<mapsto>
             \<lparr>position.entry_price = close a,
              position.entry_datetime = timestamp a,
              position.cash = sim_state.cash s,
              position.shares = sim_state.cash s / close a\<rparr>],
          sim_state.cash := 0\<rparr>)"
    by (intro second_buyer_ignored) simp_all
next
  fix rest s'
  assume a: "held_positions s = Map.empty \<and> sim_state.cash s > 0 \<and>
    timestamp a = timestamp b \<and> bar.ticker a < bar.ticker b \<and>
    signal a = 1 \<and> signal b = 1 \<and> close a \<noteq> 0"
  assume run: "simulate_loop sl tp ([a, b] @ rest) s = Inr s'"
  assume held: "held_positions s' (bar.ticker a) \<noteq> None"
  from a have "all_in s" by (simp add: all_in_def)
  then have inv: "all_in s'"
    using run by (rule all_in_simulate_loop)
  from a have ne: "bar.ticker b \<noteq> bar.ticker a" by auto
  show "held_positions s' (bar.ticker b) = None"
    by (rule all_in_other [OF inv held ne])
qed

text \<open>
  A and B both signal Buy at time 0 with 1000 in cash: A gets a position of 1000, B gets
  none, and B still has none after B's Buy at time 900.
\<close>

theorem entry_takes_all_cash_witness:
  "held_positions (init_state 1000) = Map.empty \<and> sim_state.cash (init_state 1000) > 0 \<and>
   bar.ticker (signal_row ''A'' 0 100 1) < bar.ticker (signal_row ''B'' 0 50 1) \<and>
   sort_values [signal_row ''B'' 0 50 1, signal_row ''A'' 0 100 1]
     = [signal_row ''A'' 0 100 1, signal_row ''B'' 0 50 1] \<and>
   process_row 0.05 0.15 (init_state 1000) (signal_row ''A'' 0 100 1)
     = Inr \<lparr>held_positions = [''A'' \<mapsto>
          \<lparr>position.entry_price = 100, position.entry_datetime = 0,
           position.cash = 1000, position.shares = 10\<rparr>],
        trades = [], sim_state.cash = 0\<rparr> \<and>
   map_sum id (\<lambda>s. held_positions s ''A'') (state_after 0.05 0.15
      [signal_row ''B'' 0 50 1, signal_row ''A'' 0 100 1, signal_row ''B'' 900 50 1]
      1000 3)
     = Inr (Some \<lparr>position.entry_price = 100, position.entry_datetime = 0,
                  position.cash = 1000, position.shares = 10\<rparr>) \<and>
   map_sum id (\<lambda>s. held_positions s ''B'') (state_after 0.05 0.15
      [signal_row ''B'' 0 50 1, signal_row ''A'' 0 100 1, signal_row ''B'' 900 50 1]
      1000 3) = Inr None"
  using entry_takes_all_cash [where df = "[signal_row ''B'' 0 50 1, signal_row ''A'' 0 100 1]"
      and sl = "0.05" and tp = "0.15" and s = "init_state 1000"
      and se = "init_state 1000" and row = "signal_row ''A'' 0 100 1"
      and a = "signal_row ''A'' 0 100 1" and b = "signal_row ''B'' 0 50 1"]
  by (simp add: sim_eval)

text \<open>
  A Buy on a bar with the close 0, nothing held and 1000 in cash: the three conditions
  of the claim hold, yet no position is opened; the iteration, and with it the run,
  ends with \<open>ZeroDivisionError\<close>.
\<close>

theorem entry_takes_all_cash_counterexample:
  "signal (signal_row ''A'' 0 0 1) = 1 \<and>
   held_positions (init_state 1000) (bar.ticker (signal_row ''A'' 0 0 1)) = None \<and>
   sim_state.cash (init_state 1000) > 0 \<and>
   process_row 0.05 0.15 (init_state 1000) (signal_row ''A'' 0 0 1)
     = Inl ZeroDivisionError \<and>
   simulate_trades_with_risk
      [signal_row ''A'' 0 0 1, signal_row ''A'' 900 1 (- 1)] 1000 default_risk
     = Inl ZeroDivisionError"
  by (simp add: sim_eval)

section \<open>The fields of a trade\<close>

lemma pct_cancel: "x * 100 / 100 * y = x * (y::real)"
  by simp

lemma origin_exit_logic:
  assumes "row \<in> R" and "positions_from R s" and "trades_from R s"
    and "exit_logic sl tp row s = Inr s1"
  shows "positions_from R s1 \<and> trades_from R s1"
  using assms(4)
proof (cases rule: exit_logic_InrE)
  case same
  then show ?thesis using assms(2,3) by simp
next
  case (fired p)
  note f = exit_logic_fired [OF assms(4) fired]
  from assms(2) fired(1) obtain e where e: "e \<in> R" "bar.ticker e = bar.ticker row"
    "position.entry_price p = close e" "position.entry_datetime p = timestamp e"
    "position.shares p = position.cash p / close e"
    unfolding positions_from_def by blast
  have eq: "(close row - close e) / close e * 100 / 100 * position.cash p =
      pnl_pct p (close row) * position.cash p"
    unfolding pnl_pct_def e(3) by (rule pct_cancel)
  have "spec_trade e row (position.cash p) (exit_trade sl p row)"
    unfolding spec_trade_def eq
    using e by (simp add: exit_trade_def pnl_pct_def)
  then have new: "\<exists>e\<in>R. \<exists>x\<in>R. \<exists>alloc. spec_trade e x alloc (exit_trade sl p row)"
    using e(1) assms(1) by blast
  have t: "trades_from R s1"
    using assms(3) new unfolding trades_from_def f(2) by simp
  have "positions_from R s1"
    using assms(2) unfolding positions_from_def f(1)
    by (simp split: if_splits)
  with t show ?thesis by simp
qed

lemma origin_buy_logic:
  assumes "row \<in> R" and "positions_from R s" and "buy_logic row s = Inr s2"
  shows "positions_from R s2"
  using assms(3)
proof (cases rule: buy_logic_InrE)
  case skip
  then show ?thesis using assms(2) by simp
next
  case enter
  show ?thesis
    using assms(1,2) unfolding positions_from_def enter(5)
    by (auto split: if_splits)
qed

lemma origin_simulate_loop:
  assumes "set df \<subseteq> R" and "positions_from R s" and "trades_from R s"
    and "simulate_loop sl tp df s = Inr s'"
  shows "trades_from R s'"
  using assms
proof (induction df arbitrary: s)
  case Nil
  then show ?case by simp
next
  case (Cons row df)
  from Cons.prems(1) have row: "row \<in> R" and rest: "set df \<subseteq> R"
    by simp_all
  from Cons.prems(4) obtain s2 where "process_row sl tp s row = Inr s2"
    and l: "simulate_loop sl tp df s2 = Inr s'"
    by (auto split: sum.splits)
  then obtain s1 where x: "exit_logic sl tp row s = Inr s1" and b: "buy_logic row s1 = Inr s2"
    by (auto elim: process_row_InrE)
  from origin_exit_logic [OF row Cons.prems(2,3) x]
  have p: "positions_from R s1" and t: "trades_from R s1"
    by simp_all
  have p': "positions_from R s2"
    by (rule origin_buy_logic [OF row p b])
  have t': "trades_from R s2"
    using t by (simp add: trades_from_def trades_buy_logic [OF b])
  show ?case
    by (rule Cons.IH [OF rest p' t' l])
qed

lemma trades_from_state_after:
  assumes "state_after sl tp df c n = Inr s"
  shows "trades_from (set df) s"
proof (rule origin_simulate_loop)
  show "set (take n (sort_values df)) \<subseteq> set df"
    using set_take_subset [of n "sort_values df"] by (simp add: sort_values_def)
  show "positions_from (set df) (init_state c)"
    by (simp add: positions_from_def init_state_def)
  show "trades_from (set df) (init_state c)"
    by (simp add: trades_from_def init_state_def)
  show "simulate_loop sl tp (take n (sort_values df)) (init_state c) = Inr s"
    using assms by (simp add: state_after_def)
qed

text \<open>
  C7. Every trade of a returned ledger was opened by a row of the frame and closed by a
  row of the frame, of the same ticker, and its fields are: \<open>return_pct\<close> =
  (exit close - entry close) / entry close * 100 rounded to 4 decimals; \<open>pnl\<close> = that
  unrounded return / 100 * the cash allocated at entry, rounded to 2 decimals;
  \<open>allocated_cash\<close> the allocated cash rounded to 2 decimals; prices and shares rounded to
  4 decimals; \<open>holding_ticks\<close> = (exit timestamp - entry timestamp) / 900. The rounding
  is in the record only: the exit of a position (with a non-zero entry price, as every
  position that the loop opens has) adds to cash the allocated cash plus the unrounded
  profit and loss.
\<close>

theorem trade_fields_full_precision:
  "(simulate_trades_with_risk df c config = Inr l \<longrightarrow>
      (\<forall>t\<in>set l. \<exists>entry_row\<in>set df. \<exists>exit_row\<in>set df. \<exists>alloc.
          spec_trade entry_row exit_row alloc t)) \<and>
   (held_positions s (bar.ticker row) = Some p \<and> position.entry_price p \<noteq> 0 \<and>
    exit_fires sl tp p row \<longrightarrow>
      (\<exists>s1. exit_logic sl tp row s = Inr s1 \<and>
         sim_state.cash s1 =
           sim_state.cash s + position.cash p +
           (close row - position.entry_price p) / position.entry_price p * position.cash p))"
proof (intro conjI impI)
  assume "simulate_trades_with_risk df c config = Inr l"
  then obtain sl' tp' s' where "state_after sl' tp' df c (length df) = Inr s'"
    and "l = sort_key trade.entry_datetime (trades s')"
    by (rule simulate_Inr)
  then show "\<forall>t\<in>set l. \<exists>entry_row\<in>set df. \<exists>exit_row\<in>set df. \<exists>alloc.
          spec_trade entry_row exit_row alloc t"
    using trades_from_state_after [of sl' tp' df c "length df" s']
    by (simp add: trades_from_def)
next
  assume "held_positions s (bar.ticker row) = Some p \<and> position.entry_price p \<noteq> 0 \<and>
    exit_fires sl tp p row"
  then have h: "held_positions s (bar.ticker row) = Some p"
    and nz: "position.entry_price p \<noteq> 0" and f: "exit_fires sl tp p row"
    by simp_all
  show "\<exists>s1. exit_logic sl tp row s = Inr s1 \<and>
         sim_state.cash s1 =
           sim_state.cash s + position.cash p +
           (close row - position.entry_price p) / position.entry_price p * position.cash p"
    by (simp add: exit_logic_fire [OF h nz f] pnl_pct_def)
qed

text \<open>
  1000 buys A at 3 and sells at 4: the record shows a return of 33.3333 per cent and a
  profit of 333.33, while cash receives 1000 + 1000 / 3.
\<close>

theorem trade_fields_full_precision_witness:
  "simulate_trades_with_risk
      [signal_row ''A'' 0 3 1, signal_row ''A'' 900 4 (- 1)] 1000 default_risk
     = Inr [\<lparr>trade.ticker = ''A'', trade.entry_datetime = 0, exit_datetime = 900,
             trade.entry_price = 3, exit_price = 4, return_pct = 33.3333, pnl = 333.33,
             allocated_cash = 1000, trade.shares = 333.3333, holding_ticks = 1,
             exit_reason = ''Strategy logic''\<rparr>] \<and>
   spec_trade (signal_row ''A'' 0 3 1) (signal_row ''A'' 900 4 (- 1)) 1000
     \<lparr>trade.ticker = ''A'', trade.entry_datetime = 0, exit_datetime = 900,
      trade.entry_price = 3, exit_price = 4, return_pct = 33.3333, pnl = 333.33,
      allocated_cash = 1000, trade.shares = 333.3333, holding_ticks = 1,
      exit_reason = ''Strategy logic''\<rparr> \<and>
   exit_fires 0.05 0.15
     \<lparr>position.entry_price = 3, position.entry_datetime = 0,
      position.cash = 1000, position.shares = 1000 / 3\<rparr>
     (signal_row ''A'' 900 4 (- 1)) \<and>
   map_sum id sim_state.cash (exit_logic 0.05 0.15 (signal_row ''A'' 900 4 (- 1))
      \<lparr>held_positions = [''A'' \<mapsto>
         \<lparr>position.entry_price = 3, position.entry_datetime = 0,
          position.cash = 1000, position.shares = 1000 / 3\<rparr>],
       trades = [], sim_state.cash = 0\<rparr>) = Inr (4000 / 3)"
  using trade_fields_full_precision
    [where df = "[signal_row ''A'' 0 3 1, signal_row ''A'' 900 4 (- 1)]" and c = 1000
      and config = default_risk
      and row = "signal_row ''A'' 900 4 (- 1)" and sl = "0.05" and tp = "0.15"
      and p = "\<lparr>position.entry_price = 3, position.entry_datetime = 0,
                position.cash = 1000, position.shares = 1000 / 3\<rparr>"
      and s = "\<lparr>held_positions = [''A'' \<mapsto>
         \<lparr>position.entry_price = 3, position.entry_datetime = 0,
          position.cash = 1000, position.shares = 1000 / 3\<rparr>],
       trades = [], sim_state.cash = 0\<rparr>"]
  by (simp add: sim_eval spec_trade_def)

section \<open>Capital conservation\<close>

lemma allocated_total_empty: "allocated_total Map.empty = 0"
  by (simp add: allocated_total_def)

lemma allocated_total_single: "allocated_total [tk \<mapsto> p] = position.cash p"
  by (simp add: allocated_total_def)

lemma balance_exit_logic:
  assumes "all_in s" and "exit_logic sl tp row s = Inr s1"
  shows "sim_state.cash s1 + allocated_total (held_positions s1) =
         sim_state.cash s + allocated_total (held_positions s)
           + sum_list (realized_pnl sl tp s row) \<and>
         map pnl (trades s1) =
           map pnl (trades s) @ map (\<lambda>x. py_round x 2) (realized_pnl sl tp s row)"
  using assms(2)
proof (cases rule: exit_logic_InrE)
  case same
  then have "realized_pnl sl tp s row = []"
    by (auto simp: realized_pnl_def split: option.splits)
  with same(1) show ?thesis by simp
next
  case (fired p)
  note f = exit_logic_fired [OF assms(2) fired]
  from fired(1) have "held_positions s \<noteq> Map.empty" by auto
  with assms(1) obtain tk q where h: "held_positions s = [tk \<mapsto> q]"
    by (auto simp: all_in_def)
  from fired(1) h have tk: "tk = bar.ticker row" and q: "q = p"
    by (auto split: if_splits)
  have before: "allocated_total (held_positions s) = position.cash p"
    by (simp add: h q allocated_total_single)
  have "(held_positions s)(bar.ticker row := None) = Map.empty"
    by (simp add: h tk)
  then have after: "allocated_total (held_positions s1) = 0"
    by (simp add: f(1) allocated_total_empty)
  have r: "realized_pnl sl tp s row = [pnl_pct p (close row) * position.cash p]"
    using fired by (simp add: realized_pnl_def)
  show ?thesis
    by (simp add: before after f(2,3) r exit_trade_def)
qed

lemma balance_buy_logic:
  assumes "all_in s" and "buy_logic row s = Inr s2"
  shows "sim_state.cash s2 + allocated_total (held_positions s2)
         = sim_state.cash s + allocated_total (held_positions s)"
  using assms(2)
proof (cases rule: buy_logic_InrE)
  case skip
  then show ?thesis by simp
next
  case enter
  from enter(3) have "sim_state.cash s \<noteq> 0" by simp
  with assms(1) have e: "held_positions s = Map.empty"
    by (auto simp: all_in_def)
  show ?thesis
    by (simp add: enter(5) e allocated_total_single allocated_total_empty)
qed

lemma balance_simulate_loop:
  assumes "all_in s" and "simulate_loop sl tp df s = Inr s'"
  shows "sim_state.cash s' + allocated_total (held_positions s') =
         sim_state.cash s + allocated_total (held_positions s)
           + sum_list (realized_pnls sl tp s df) \<and>
         map pnl (trades s') =
           map pnl (trades s) @ map (\<lambda>x. py_round x 2) (realized_pnls sl tp s df)"
  using assms
proof (induction df arbitrary: s)
  case Nil
  then show ?case by simp
next
  case (Cons row df)
  from Cons.prems(2) obtain s2 where p: "process_row sl tp s row = Inr s2"
    and l: "simulate_loop sl tp df s2 = Inr s'"
    by (auto split: sum.splits)
  then obtain s1 where x: "exit_logic sl tp row s = Inr s1" and b: "buy_logic row s1 = Inr s2"
    by (auto elim: process_row_InrE)
  have inv1: "all_in s1" by (rule all_in_exit_logic [OF Cons.prems(1) x])
  have inv2: "all_in s2" by (rule all_in_buy_logic [OF inv1 b])
  from balance_buy_logic [OF inv1 b] balance_exit_logic [OF Cons.prems(1) x]
  have step: "sim_state.cash s2 + allocated_total (held_positions s2) =
      sim_state.cash s + allocated_total (held_positions s)
        + sum_list (realized_pnl sl tp s row)"
    and pnls: "map pnl (trades s2) =
      map pnl (trades s) @ map (\<lambda>x. py_round x 2) (realized_pnl sl tp s row)"
    by (simp_all add: trades_buy_logic [OF b])
  from Cons.IH [OF inv2 l] step pnls show ?case
    by (simp add: p)
qed

lemma round_half_even_error: "\<bar>of_int (round_half_even y) - y\<bar> \<le> 1 / 2"
proof -
  have "of_int \<lfloor>y\<rfloor> \<le> y" and "y < of_int \<lfloor>y\<rfloor> + 1"
    by linarith+
  then show ?thesis
    by (auto simp: round_half_even_def Let_def)
qed

lemma py_round_error: "\<bar>py_round x 2 - x\<bar> \<le> 1 / 200"
proof -
  have "\<bar>of_int (round_half_even (x * 100)) - x * 100\<bar> \<le> 1 / 2"
    by (rule round_half_even_error)
  then show ?thesis
    by (simp add: py_round_def abs_le_iff field_simps)
qed

lemma sum_list_round_error:
  "\<bar>sum_list (map (\<lambda>x. py_round x 2) xs) - sum_list xs\<bar> \<le> real (length xs) / 200"
proof (induction xs)
  case Nil
  show ?case by simp
next
  case (Cons x xs)
  have h: "\<bar>py_round x 2 - x\<bar> \<le> 1 / 200" by (rule py_round_error)
  have "\<bar>(py_round x 2 - x) + (sum_list (map (\<lambda>x. py_round x 2) xs) - sum_list xs)\<bar>
      \<le> \<bar>py_round x 2 - x\<bar> + \<bar>sum_list (map (\<lambda>x. py_round x 2) xs) - sum_list xs\<bar>"
    by (rule abs_triangle_ineq)
  also have "\<dots> \<le> 1 / 200 + real (length xs) / 200"
    by (rule add_mono [OF h Cons.IH])
  finally show ?case
    by (simp add: algebra_simps add_divide_distrib)
qed

text \<open>
  C1, as the code has it. After every processed bar, cash plus the cash allocated to open
  positions equals the initial capital plus the sum of the profit and loss that the exits
  so far released into cash, each at full precision (\<open>pnl_pct * position['cash']\<close>). The
  \<open>pnl\<close> fields of the closed trades are these values rounded to 2 decimals, one per
  trade, so the equality with the recorded \<open>pnl\<close> holds up to 0.005 per closed trade. The
  only other outcome is that the run has ended before with \<open>ZeroDivisionError\<close>.
\<close>

theorem capital_conservation_unrounded:
  "(case state_after sl tp df c n of
      Inl e \<Rightarrow> e = ZeroDivisionError
    | Inr s \<Rightarrow>
        sim_state.cash s + allocated_total (held_positions s) =
          c + sum_list (realized_pnls sl tp (init_state c) (take n (sort_values df))) \<and>
        map pnl (trades s) =
          map (\<lambda>x. py_round x 2)
            (realized_pnls sl tp (init_state c) (take n (sort_values df))) \<and>
        \<bar>sim_state.cash s + allocated_total (held_positions s)
            - (c + sum_list (map pnl (trades s)))\<bar>
          \<le> real (length (trades s)) / 200)"
proof (cases "state_after sl tp df c n")
  case (Inl e)
  then show ?thesis by (simp add: state_after_error)
next
  case (Inr s)
  let ?P = "realized_pnls sl tp (init_state c) (take n (sort_values df))"
  from Inr have run: "simulate_loop sl tp (take n (sort_values df)) (init_state c) = Inr s"
    by (simp add: state_after_def)
  from balance_simulate_loop [OF all_in_init run]
  have bal: "sim_state.cash s + allocated_total (held_positions s) = c + sum_list ?P"
    and pnls: "map pnl (trades s) = map (\<lambda>x. py_round x 2) ?P"
    by (simp_all add: init_state_def allocated_total_empty)
  have len: "length (trades s) = length ?P"
    using arg_cong [OF pnls, of length] by simp
  have "\<bar>sum_list (map (\<lambda>x. py_round x 2) ?P) - sum_list ?P\<bar> \<le> real (length ?P) / 200"
    by (rule sum_list_round_error)
  then have "\<bar>sim_state.cash s + allocated_total (held_positions s)
       - (c + sum_list (map pnl (trades s)))\<bar> \<le> real (length (trades s)) / 200"
    by (simp add: bal pnls len abs_minus_commute)
  with bal pnls show ?thesis by (simp add: Inr)
qed

text \<open>
  1000 buys A at 3 and sells at 4: cash ends at 4000 / 3, the initial 1000 plus the
  unrounded profit 1000 / 3; the ledger shows 333.33.
\<close>

theorem capital_conservation_unrounded_witness:
  "state_after 0.05 0.15 [signal_row ''A'' 0 3 1, signal_row ''A'' 900 4 (- 1)] 1000 2
     = Inr \<lparr>held_positions = Map.empty,
            trades = [\<lparr>trade.ticker = ''A'', trade.entry_datetime = 0, exit_datetime = 900,
               trade.entry_price = 3, exit_price = 4, return_pct = 33.3333, pnl = 333.33,
               allocated_cash = 1000, trade.shares = 333.3333, holding_ticks = 1,
               exit_reason = ''Strategy logic''\<rparr>],
            sim_state.cash = 4000 / 3\<rparr> \<and>
   allocated_total Map.empty = 0 \<and>
   realized_pnls 0.05 0.15 (init_state 1000)
      (take 2 (sort_values [signal_row ''A'' 0 3 1, signal_row ''A'' 900 4 (- 1)]))
     = [1000 / 3]"
  using capital_conservation_unrounded
    [where sl = "0.05" and tp = "0.15"
      and df = "[signal_row ''A'' 0 3 1, signal_row ''A'' 900 4 (- 1)]" and c = 1000
      and n = 2]
  by (simp add: sim_eval realized_pnl_def allocated_total_def)

text \<open>
  With the \<open>pnl\<close> of the closed trades as recorded the equality fails: after that run
  cash is 4000 / 3 and nothing is allocated, while the initial capital plus the recorded
  pnl is 1333.33.
\<close>

theorem capital_conservation_counterexample:
  "(case state_after 0.05 0.15
           [signal_row ''A'' 0 3 1, signal_row ''A'' 900 4 (- 1)] 1000 2 of
      Inl e \<Rightarrow> False
    | Inr s \<Rightarrow>
        sim_state.cash s + allocated_total (held_positions s)
          \<noteq> 1000 + sum_list (map pnl (trades s)))"
  by (simp add: sim_eval allocated_total_def)

section \<open>Moving averages\<close>

lemmas ind_eval = compute_indicators_def apply_indicators_def dropna_def ticker_groups_def
  compute_group_indicators_def round_col_def column_at_def sort_index_def rolling_mean_def
  roll_step_def warming_up_def price_bar_def py_round_def round_half_even_def
  upt_rec [of 0] upt_rec [of 1] upt_rec [of 2] upt_rec [of 3]


lemma window_sum:
  assumes "m + n \<le> length xs"
  shows "sum_list (take n (drop m xs)) = (\<Sum>j = m..<m + n. xs ! j)"
proof -
  have "sum_list (take n (drop m xs)) = (\<Sum>j = 0..<n. take n (drop m xs) ! j)"
    using assms by (simp add: sum_list_sum_nth)
  also have "\<dots> = (\<Sum>j = 0..<n. xs ! (m + j))"
    using assms by (intro sum.cong) auto
  also have "\<dots> = (\<Sum>j = m..<m + n. xs ! j)"
    using sum.shift_bounds_nat_ivl [of "\<lambda>j. xs ! j" 0 m n] by (simp add: add.commute)
  finally show ?thesis .
qed

lemma roll_step_triple:
  "roll_step w values i (sx, n, out) =
     (let sx' = (if w \<le> i then sx - values ! (i - w) else sx) + values ! i;
          n' = (if w \<le> i then n - 1 else n) + 1
      in (sx', n', out @ [if w \<le> n' \<and> 0 < n' then Some (sx' / real n') else None]))"
  by (simp add: roll_step_def Let_def)

lemma roll_fold:
  assumes "1 \<le> w" and "k \<le> length values"
  shows "fold (roll_step w values) [0..<k] (0, 0, []) =
     ((\<Sum>j = k - w..<k. values ! j), min k w, map (trailing_mean w values) [0..<k])"
  using assms(2)
proof (induction k)
  case 0
  show ?case by simp
next
  case (Suc k)
  then have IH: "fold (roll_step w values) [0..<k] (0, 0, []) =
     ((\<Sum>j = k - w..<k. values ! j), min k w, map (trailing_mean w values) [0..<k])"
    and k: "k < length values"
    by simp_all
  have s: "(if w \<le> k then (\<Sum>j = k - w..<k. values ! j) - values ! (k - w)
            else (\<Sum>j = k - w..<k. values ! j)) + values ! k
          = (\<Sum>j = Suc k - w..<Suc k. values ! j)"
  proof (cases "w \<le> k")
    case True
    then have "k - w < k" using assms(1) by simp
    then have "(\<Sum>j = k - w..<k. values ! j) = values ! (k - w) + (\<Sum>j = Suc (k - w)..<k. values ! j)"
      by (simp add: sum.atLeast_Suc_lessThan)
    moreover have "Suc (k - w) = Suc k - w" using True by simp
    moreover have "Suc k - w \<le> k" using assms(1) by simp
    ultimately show ?thesis using True by simp
  next
    case False
    then have "k - w = 0" "Suc k - w = 0" by simp_all
    then show ?thesis using False by simp
  qed
  have n: "(if w \<le> k then min k w - 1 else min k w) + 1 = min (Suc k) w"
    using assms(1) by (auto simp: min_def)
  have t: "trailing_mean w values k =
     (if w \<le> min (Suc k) w \<and> 0 < min (Suc k) w
      then Some ((\<Sum>j = Suc k - w..<Suc k. values ! j) / real (min (Suc k) w)) else None)"
  proof (cases "k + 1 < w")
    case True
    then show ?thesis by (simp add: trailing_mean_def min_def)
  next
    case False
    then have "(Suc k - w) + w \<le> length values" using k by simp
    from window_sum [OF this] False show ?thesis
      using assms(1) by (simp add: trailing_mean_def min_def)
  qed
  have "fold (roll_step w values) [0..<Suc k] (0, 0, []) =
      roll_step w values k
        ((\<Sum>j = k - w..<k. values ! j), min k w, map (trailing_mean w values) [0..<k])"
    by (simp add: IH)
  also have "\<dots> = ((\<Sum>j = Suc k - w..<Suc k. values ! j), min (Suc k) w,
      map (trailing_mean w values) [0..<k] @ [trailing_mean w values k])"
    unfolding roll_step_triple Let_def s n t ..
  finally show ?case by simp
qed

lemma rolling_mean_trailing:
  "1 \<le> w \<Longrightarrow> rolling_mean w values = map (trailing_mean w values) [0..<length values]"
  by (simp add: rolling_mean_def roll_fold)


lemma length_rolling_mean: "1 \<le> w \<Longrightarrow> length (rolling_mean w values) = length values"
  by (simp add: rolling_mean_trailing)

lemma column_at_rolling:
  assumes "1 \<le> w" and "k < length values"
  shows "column_at (round_col (rolling_mean w values)) k =
     map_option (\<lambda>v. py_round v 4) (trailing_mean w values k)"
  using assms by (simp add: column_at_def round_col_def rolling_mean_trailing)

lemma length_compute_group_indicators:
  "length (compute_group_indicators lib sw lw grp) = length grp"
  by (simp add: compute_group_indicators_def Let_def sort_index_def)

lemma short_ma_nth:
  assumes "1 \<le> sw" and "k < length grp"
  shows "short_ma (snd (compute_group_indicators lib sw lw grp ! k)) =
     map_option (\<lambda>v. py_round v 4)
       (trailing_mean sw (map (\<lambda>(idx, row). close row) (sort_index grp)) k)"
proof -
  have k: "k < length (sort_index grp)"
    using assms(2) by (simp add: sort_index_def)
  then show ?thesis
    using assms(1)
    by (simp add: compute_group_indicators_def Let_def column_at_rolling split: prod.split)
qed

lemma long_ma_nth:
  assumes "1 \<le> lw" and "k < length grp"
  shows "long_ma (snd (compute_group_indicators lib sw lw grp ! k)) =
     map_option (\<lambda>v. py_round v 4)
       (trailing_mean lw (map (\<lambda>(idx, row). close row) (sort_index grp)) k)"
proof -
  have k: "k < length (sort_index grp)"
    using assms(2) by (simp add: sort_index_def)
  then show ?thesis
    using assms(1)
    by (simp add: compute_group_indicators_def Let_def column_at_rolling split: prod.split)
qed

text \<open>
  C6. For windows of at least 1, row \<open>k\<close> of the indicator frame of one ticker (its rows
  taken in index order, \<open>closes\<close> their closes) has no \<open>short_ma\<close> while \<open>k + 1\<close> is below
  the short window, and from \<open>k = short_window - 1\<close> on the arithmetic mean of the trailing
  \<open>short_window\<close> closes, the one at \<open>k\<close> included, rounded to 4 decimals; the same for
  \<open>long_ma\<close> and the long window.
\<close>

theorem sma_trailing_mean:
  assumes "1 \<le> short_window" and "1 \<le> long_window" and "k < length grp"
    and "closes = map (\<lambda>(idx, row). close row) (sort_index grp)"
  shows "short_ma (snd (compute_group_indicators lib short_window long_window grp ! k)) =
     (if k + 1 < short_window then None
      else Some (py_round
        (sum_list (take short_window (drop (k + 1 - short_window) closes))
           / real short_window) 4)) \<and>
   long_ma (snd (compute_group_indicators lib short_window long_window grp ! k)) =
     (if k + 1 < long_window then None
      else Some (py_round
        (sum_list (take long_window (drop (k + 1 - long_window) closes))
           / real long_window) 4))"
  using assms by (simp add: short_ma_nth long_ma_nth trailing_mean_def)

text \<open>
  Closes 1, 2, 3, 4 with window 3 give no value, no value, 2, 3 (and with window 1 the
  closes themselves).
\<close>

theorem sma_trailing_mean_witness:
  "short_ma (snd (compute_group_indicators warming_up 3 1
        [(0, price_bar ''A'' 0 1), (1, price_bar ''A'' 900 2),
         (2, price_bar ''A'' 1800 3), (3, price_bar ''A'' 2700 4)] ! 2))
     = Some (py_round (sum_list (take 3 (drop 0 [1, 2, 3, 4])) / 3) 4) \<and>
   map (\<lambda>(idx, row). short_ma row)
     (compute_group_indicators warming_up 3 1
        [(0, price_bar ''A'' 0 1), (1, price_bar ''A'' 900 2),
         (2, price_bar ''A'' 1800 3), (3, price_bar ''A'' 2700 4)])
     = [None, None, Some 2, Some 3] \<and>
   map (\<lambda>(idx, row). long_ma row)
     (compute_group_indicators warming_up 3 1
        [(0, price_bar ''A'' 0 1), (1, price_bar ''A'' 900 2),
         (2, price_bar ''A'' 1800 3), (3, price_bar ''A'' 2700 4)])
     = [Some 1, Some 2, Some 3, Some 4]"
  using sma_trailing_mean [of 3 1 2 "[(0, price_bar ''A'' 0 1), (1, price_bar ''A'' 900 2),
         (2, price_bar ''A'' 1800 3), (3, price_bar ''A'' 2700 4)]"
         "[1, 2, 3, 4]" warming_up]
  by (simp add: ind_eval)

section \<open>Rows dropped after indicator computation\<close>

lemma filter_from: "filter (\<lambda>k. m \<le> k) [0..<n] = [m..<n]"
  by (induction n) (auto simp: upt_Suc_append not_le)

lemma dropna_group:
  assumes "1 \<le> sw" and "1 \<le> lw"
  shows "dropna [short_ma, long_ma] (compute_group_indicators lib sw lw grp) =
     drop (max sw lw - 1) (compute_group_indicators lib sw lw grp)"
proof -
  let ?G = "compute_group_indicators lib sw lw grp"
  let ?n = "length grp"
  have len: "length ?G = ?n" by (rule length_compute_group_indicators)
  have G: "?G = map (\<lambda>k. ?G ! k) [0..<?n]"
    using len by (metis map_nth)
  have keep: "(case ?G ! k of (idx, row) \<Rightarrow> list_all (\<lambda>column. column row \<noteq> None) [short_ma, long_ma])
      \<longleftrightarrow> max sw lw - 1 \<le> k" if "k < ?n" for k
  proof -
    have "short_ma (snd (?G ! k)) \<noteq> None \<longleftrightarrow> sw \<le> k + 1"
      using assms that by (simp add: short_ma_nth trailing_mean_def)
    moreover have "long_ma (snd (?G ! k)) \<noteq> None \<longleftrightarrow> lw \<le> k + 1"
      using assms that by (simp add: long_ma_nth trailing_mean_def)
    ultimately show ?thesis
      using assms by (auto simp: split_beta)
  qed
  have "dropna [short_ma, long_ma] ?G =
      map (\<lambda>k. ?G ! k) (filter (\<lambda>k. case ?G ! k of (idx, row) \<Rightarrow>
          list_all (\<lambda>column. column row \<noteq> None) [short_ma, long_ma]) [0..<?n])"
    unfolding dropna_def by (subst G) (simp only: filter_map comp_def)
  also have "\<dots> = map (\<lambda>k. ?G ! k) (filter (\<lambda>k. max sw lw - 1 \<le> k) [0..<?n])"
  proof (rule arg_cong [where f = "map (\<lambda>k. ?G ! k)"], rule filter_cong)
    show "[0..<?n] = [0..<?n]" ..
  next
    fix k assume "k \<in> set [0..<?n]"
    then have "k < ?n" by simp
    then show "(case ?G ! k of (idx, row) \<Rightarrow>
          list_all (\<lambda>column. column row \<noteq> None) [short_ma, long_ma]) =
        (max sw lw - 1 \<le> k)"
      by (rule keep)
  qed
  also have "\<dots> = map (\<lambda>k. ?G ! k) [max sw lw - 1..<?n]"
    by (simp only: filter_from)
  also have "\<dots> = drop (max sw lw - 1) (map (\<lambda>k. ?G ! k) [0..<?n])"
    by (simp add: drop_map)
  also have "\<dots> = drop (max sw lw - 1) ?G"
    using G by simp
  finally show ?thesis .
qed

lemma dropna_concat: "dropna cols (concat dfs) = concat (map (dropna cols) dfs)"
  by (induction dfs) (simp_all add: dropna_def)

text \<open>
  C8. \<open>compute_indicators\<close> keeps exactly the rows of the indicator frame that have
  both a \<open>short_ma\<close> and a \<open>long_ma\<close>, whatever their RSI, MACD and Bollinger columns
  hold; with windows of at least 1 these are, per ticker, all rows but the first
  \<open>max short_window long_window - 1\<close>, the warm-up rows of the moving averages.
\<close>

theorem only_ma_warmup_dropped:
  assumes "sw = (case params ''short_window'' of None \<Rightarrow> 20 | Some w \<Rightarrow> w)"
    and "lw = (case params ''long_window'' of None \<Rightarrow> 50 | Some w \<Rightarrow> w)"
  shows "compute_indicators lib params df =
       filter (\<lambda>(idx, row). short_ma row \<noteq> None \<and> long_ma row \<noteq> None)
         (apply_indicators lib sw lw df) \<and>
     (1 \<le> sw \<and> 1 \<le> lw \<longrightarrow>
        compute_indicators lib params df =
          concat (map (\<lambda>grp. drop (max sw lw - 1)
                                 (compute_group_indicators lib sw lw grp))
                    (ticker_groups df)))"
proof (intro conjI impI)
  show "compute_indicators lib params df =
       filter (\<lambda>(idx, row). short_ma row \<noteq> None \<and> long_ma row \<noteq> None)
         (apply_indicators lib sw lw df)"
    by (simp add: compute_indicators_def assms dropna_def)
next
  assume w: "1 \<le> sw \<and> 1 \<le> lw"
  have "compute_indicators lib params df =
      concat (map (dropna [short_ma, long_ma])
        (map (compute_group_indicators lib sw lw) (ticker_groups df)))"
    unfolding compute_indicators_def Let_def apply_indicators_def dropna_concat assms ..
  also have "\<dots> = concat (map (\<lambda>grp. drop (max sw lw - 1)
                                 (compute_group_indicators lib sw lw grp))
                    (ticker_groups df))"
    using w by (simp add: dropna_group comp_def)
  finally show "compute_indicators lib params df =
          concat (map (\<lambda>grp. drop (max sw lw - 1)
                                 (compute_group_indicators lib sw lw grp))
                    (ticker_groups df))" .
qed

text \<open>
  Windows 2 and 3, four bars of A, two of B, every other indicator still missing: rows
  2 and 3 of A are kept although their RSI, MACD and Bollinger values are missing; the
  first two rows of A and both rows of B are dropped.
\<close>

theorem only_ma_warmup_dropped_witness:
  "compute_indicators warming_up [''short_window'' \<mapsto> 2, ''long_window'' \<mapsto> 3]
     [(0, price_bar ''B'' 0 10), (0, price_bar ''A'' 0 1), (1, price_bar ''A'' 900 2),
      (2, price_bar ''A'' 1800 3), (3, price_bar ''A'' 2700 4), (1, price_bar ''B'' 900 20)]
   = [(2, \<lparr>bar.ticker = ''A'', timestamp = 1800, close = 3,
          short_ma = Some (5 / 2), long_ma = Some 2, rsi = None, macd = None,
          macd_signal = None, bb_upper = None, bb_lower = None, bb_middle = None\<rparr>),
      (3, \<lparr>bar.ticker = ''A'', timestamp = 2700, close = 4,
          short_ma = Some (7 / 2), long_ma = Some 3, rsi = None, macd = None,
          macd_signal = None, bb_upper = None, bb_lower = None, bb_middle = None\<rparr>)]"
  using only_ma_warmup_dropped [of 2 "[''short_window'' \<mapsto> 2, ''long_window'' \<mapsto> 3]" 3
     warming_up "[(0, price_bar ''B'' 0 10), (0, price_bar ''A'' 0 1), (1, price_bar ''A'' 900 2),
      (2, price_bar ''A'' 1800 3), (3, price_bar ''A'' 2700 4), (1, price_bar ''B'' 900 20)]"]
  by (simp add: ind_eval del: not_None_eq)

section \<open>Signals\<close>









end
